theory Spec2Isabelle
  imports Main
begin

section \<open>The clustering notebook \<^verbatim>\<open>hello-clustering.ipynb\<close>\<close>

text \<open>
  The notebook defines three functions (\<^verbatim>\<open>ignite_dataset\<close>, \<^verbatim>\<open>maybe_cuda_or_mps\<close>,
  \<^verbatim>\<open>prepare2d\<close>) and one cell of list comprehensions that projects the loaded
  documents.  Each is embedded below as a HOL function.  A Python exception is a value
  \<open>Inl e\<close> of the result type, a normal return is \<open>Inr v\<close>.
\<close>

subsection \<open>Exceptions\<close>

text \<open>
  The exceptions the modelled statements can raise.  \<open>KeyError\<close> carries the missing key,
  \<open>AssertionError\<close> the number interpolated into the message
  \<^verbatim>\<open>Embeddings shape mismatch Exptected 2D, got {n}D\<close>, and \<open>ColumnNotFoundError\<close> the
  column that a rename did not find.  \<open>OverflowError\<close> and \<open>ComputeError\<close> are raised by
  \<^verbatim>\<open>polars\<close> on cells that it cannot store in a column.
\<close>

datatype py_error =
    FileNotFoundError
  | JSONDecodeError
  | KeyError string
  | TypeError
  | NameError
  | AttributeError
  | IndexError
  | AssertionError nat
  | ColumnNotFoundError string
  | OverflowError
  | ComputeError

subsection \<open>Parsed JSON\<close>

text \<open>
  What \<^verbatim>\<open>json.load\<close> returns: \<^verbatim>\<open>None\<close>, a \<^verbatim>\<open>bool\<close>, an \<^verbatim>\<open>int\<close>, a \<^verbatim>\<open>float\<close>, a \<^verbatim>\<open>str\<close>,
  a \<^verbatim>\<open>list\<close> or a \<^verbatim>\<open>dict\<close> with string keys.  Floating-point numbers are kept
  abstract (the type parameter \<open>'f\<close>).  \<open>JObj\<close> lists the items of the dict, whose keys
  are distinct; \<open>map_of\<close> is the lookup.
\<close>

datatype 'f json =
    JNull
  | JBool bool
  | JInt int
  | JFloat 'f
  | JStr string
  | JArr "'f json list"
  | JObj "(string \<times> 'f json) list"

text \<open>
  \<^verbatim>\<open>obj[key]\<close> for a string \<^verbatim>\<open>key\<close>.  A dict answers with the value or raises
  \<^verbatim>\<open>KeyError\<close>; a list and a string accept integer indices only, and \<^verbatim>\<open>None\<close>, booleans
  and numbers are not subscriptable: all of these raise \<^verbatim>\<open>TypeError\<close>.
\<close>

fun getitem :: "'f json \<Rightarrow> string \<Rightarrow> py_error + 'f json" where
  "getitem (JObj items) key =
     (case map_of items key of None \<Rightarrow> Inl (KeyError key) | Some v \<Rightarrow> Inr v)"
| "getitem _ key = Inl TypeError"

text \<open>
  \<^verbatim>\<open>for di in docs\<close>: a list yields its elements, a dict its keys, a string its
  characters as one-character strings; the other values are not iterable.
\<close>

fun iterate :: "'f json \<Rightarrow> py_error + 'f json list" where
  "iterate (JArr xs) = Inr xs"
| "iterate (JObj items) = Inr (map (\<lambda>kv. JStr (fst kv)) items)"
| "iterate (JStr s) = Inr (map (\<lambda>c. JStr [c]) s)"
| "iterate _ = Inl TypeError"

subsection \<open>The Document Loader: \<^verbatim>\<open>ignite_dataset\<close>\<close>

text \<open>
  \<^verbatim>\<open>
  def ignite_dataset(where, mask: str = None) -> list[dict]:
      docs = None
      with open(str(Path(where)), encoding="utf-8") as fin:
          docs = json.load(fin)
      if mask:
          return docs[mask]
      return docs
  \<close>
  The file system \<open>fs\<close> maps a path to the content of the file there, \<open>None\<close> when no
  such file exists (\<^verbatim>\<open>open\<close> raises \<^verbatim>\<open>FileNotFoundError\<close>); \<^verbatim>\<open>str(Path(where))\<close> names the
  same file as \<^verbatim>\<open>where\<close>, here \<open>path\<close>.  The parser is the library
  \<^verbatim>\<open>simplejson\<close>, which is not part of the notebook: \<open>json_load\<close> stands for
  \<^verbatim>\<open>json.load\<close> on the content of the opened file and is \<open>None\<close> where it raises.
  The argument \<^verbatim>\<open>mask\<close> (here \<open>mask_arg\<close>) is \<open>None\<close>, the default, or a string.
\<close>

text \<open>Python's truth value of \<^verbatim>\<open>mask\<close>: \<^verbatim>\<open>None\<close> and the empty string are false.\<close>

fun truthy :: "string option \<Rightarrow> bool" where
  "truthy None = False"
| "truthy (Some s) = (s \<noteq> [])"

definition ignite_dataset ::
  "(string \<Rightarrow> string option) \<Rightarrow> (string \<Rightarrow> 'f json option) \<Rightarrow> string \<Rightarrow> string option
     \<Rightarrow> py_error + 'f json" where
  "ignite_dataset fs json_load path mask_arg =
     (case fs path of
        None \<Rightarrow> Inl FileNotFoundError
      | Some fin \<Rightarrow>
          (case json_load fin of
             None \<Rightarrow> Inl JSONDecodeError
           | Some docs \<Rightarrow>
               if truthy mask_arg then getitem docs (the mask_arg) else Inr docs))"

subsection \<open>The Text/Label Extractor: the comprehensions of the fourth cell\<close>

text \<open>
  \<^verbatim>\<open>
  documents = [di["content"] for di in docs]
  labels = [di["title"] for di in docs]
  \<close>
  A comprehension evaluates \<^verbatim>\<open>di[key]\<close> element by element and stops at the first
  exception.  The second statement runs only when the first has finished.
\<close>

fun comprehension :: "string \<Rightarrow> 'f json list \<Rightarrow> py_error + 'f json list" where
  "comprehension key [] = Inr []"
| "comprehension key (di # ds) =
     (case getitem di key of
        Inl e \<Rightarrow> Inl e
      | Inr v \<Rightarrow> (case comprehension key ds of Inl e \<Rightarrow> Inl e | Inr vs \<Rightarrow> Inr (v # vs)))"

definition project :: "string \<Rightarrow> 'f json \<Rightarrow> py_error + 'f json list" where
  "project key docs =
     (case iterate docs of Inl e \<Rightarrow> Inl e | Inr ds \<Rightarrow> comprehension key ds)"

definition extract_texts_labels :: "'f json \<Rightarrow> py_error + ('f json list \<times> 'f json list)" where
  "extract_texts_labels docs =
     (case project ''content'' docs of
        Inl e \<Rightarrow> Inl e
      | Inr documents \<Rightarrow>
          (case project ''title'' docs of
             Inl e \<Rightarrow> Inl e
           | Inr labels \<Rightarrow> Inr (documents, labels)))"

text \<open>
  The vocabulary of the properties: a Document is a dict; \<open>field key d\<close> is the value
  of its field \<open>key\<close>, if it has one.
\<close>

fun is_dict :: "'f json \<Rightarrow> bool" where
  "is_dict (JObj items) = True"
| "is_dict _ = False"

fun field :: "string \<Rightarrow> 'f json \<Rightarrow> 'f json option" where
  "field key (JObj items) = map_of items key"
| "field key _ = None"

definition has_field :: "string \<Rightarrow> 'f json \<Rightarrow> bool" where
  "has_field key d = (field key d \<noteq> None)"

subsection \<open>The Device Selector: \<^verbatim>\<open>maybe_cuda_or_mps\<close>\<close>

text \<open>
  \<^verbatim>\<open>
  def maybe_cuda_or_mps():
      if torch.cuda.is_available():
          return "cuda:0"
      elif torch.has_mps:
          return "mps"
      else:
          return "cpu"
  \<close>
  The function reads two values of the \<^verbatim>\<open>torch\<close> runtime: the call
  \<^verbatim>\<open>torch.cuda.is_available()\<close>, which answers whether the primary accelerator can be used
  at run time, and the attribute \<^verbatim>\<open>torch.has_mps\<close>, which is the build flag of the
  library (\<^verbatim>\<open>torch.backends.mps.is_built()\<close>): whether \<^verbatim>\<open>torch\<close> was compiled with support
  for the secondary accelerator.  Whether that accelerator can be used at run time is
  \<^verbatim>\<open>torch.backends.mps.is_available()\<close>, which the function does not read; it is the third
  field of the record, and it holds only where the build flag does.  Whatever else the
  runtime holds is the record's extension.
\<close>

record torch =
  cuda_is_available :: bool
  has_mps :: bool
  mps_is_available :: bool

definition maybe_cuda_or_mps :: "'a torch_scheme \<Rightarrow> string" where
  "maybe_cuda_or_mps rt =
     (if cuda_is_available rt then ''cuda:0''
      else if has_mps rt then ''mps''
      else ''cpu'')"

text \<open>
  The policy in the words of the spec, to compare the function with: the primary
  accelerator if it is available at run time, else the secondary one if it is available
  at run time, else the fallback.
\<close>

definition spec_select_device :: "'a torch_scheme \<Rightarrow> string" where
  "spec_select_device rt =
     (if cuda_is_available rt then ''cuda:0''
      else if mps_is_available rt then ''mps''
      else ''cpu'')"

subsection \<open>The Tabular View Builder: \<^verbatim>\<open>prepare2d\<close>\<close>

text \<open>
  \<^verbatim>\<open>
  def prepare2d(docs, topics, labels, reduced_embeddings):
      assert (
          reduced_embeddings.shape[1] == 2
      ), f"Embeddings shape mismatch Exptected 2D, got {embeddings.shape[1]}D"
      COLS_MAPPING = dict(
          column_0="text", column_1="topic", column_2="label", column_3="x", column_4="y"
      )
      pl_view = pl.from_dicts(
          zip(
              docs,
              topics,
              labels,
              reduced_embeddings[:, 0],
              reduced_embeddings[:, 1],
              strict=False,
          )
      )
      pl_view = pl_view.rename(COLS_MAPPING)
      return pl_view
  \<close>
\<close>

text \<open>
  The points are a two-dimensional numpy array of floating-point numbers, as the reducer
  returns it: its rows, and the number of columns (which an array with no row still
  has).  In a well-formed array every row has \<open>ncols\<close> entries.
\<close>

record 'f ndarray =
  ncols :: nat
  data :: "'f list list"

definition wf_ndarray :: "'f ndarray \<Rightarrow> bool" where
  "wf_ndarray a = list_all (\<lambda>r. length r = ncols a) (data a)"

definition shape :: "'f ndarray \<Rightarrow> nat list" where
  "shape a = [length (data a), ncols a]"

text \<open>The slice \<^verbatim>\<open>a[:, j]\<close>, for a column \<open>j\<close> the array has.\<close>

definition column :: "nat \<Rightarrow> 'f ndarray \<Rightarrow> 'f list" where
  "column j a = map (\<lambda>r. r ! j) (data a)"

text \<open>
  The message of the assertion names \<^verbatim>\<open>embeddings\<close>, which is not an argument of the
  function: the name is looked up among the globals of the notebook when the assertion
  fails.  It may be unbound there (\<^verbatim>\<open>NameError\<close>), bound to a Python list, as the cell
  \<^verbatim>\<open>embeddings = list(chain.from_iterable(...))\<close> leaves it (a list has no attribute
  \<^verbatim>\<open>shape\<close>: \<^verbatim>\<open>AttributeError\<close>), or bound to an object with a \<^verbatim>\<open>shape\<close> tuple.
\<close>

datatype global_binding = Unbound | ListObject | ArrayObject "nat list"

fun assert_message :: "global_binding \<Rightarrow> py_error + nat" where
  "assert_message Unbound = Inl NameError"
| "assert_message ListObject = Inl AttributeError"
| "assert_message (ArrayObject shp) = (if 1 < length shp then Inr (shp ! 1) else Inl IndexError)"

text \<open>\<^verbatim>\<open>zip(..., strict=False)\<close> of five iterables stops at the shortest.\<close>

fun zip5 :: "'a list \<Rightarrow> 'b list \<Rightarrow> 'c list \<Rightarrow> 'd list \<Rightarrow> 'e list \<Rightarrow> ('a \<times> 'b \<times> 'c \<times> 'd \<times> 'e) list" where
  "zip5 (a # as) (b # bs) (c # cs) (d # ds) (e # es) = (a, b, c, d, e) # zip5 as bs cs ds es"
| "zip5 _ _ _ _ _ = []"

text \<open>
  A row of the zip: the document, the topic and the label are Python values, and the
  datatype of the parsed JSON above has them all (\<^verbatim>\<open>None\<close>, \<^verbatim>\<open>bool\<close>, \<^verbatim>\<open>int\<close>, \<^verbatim>\<open>float\<close>,
  \<^verbatim>\<open>str\<close>, \<^verbatim>\<open>list\<close>, \<^verbatim>\<open>dict\<close>; a Python \<^verbatim>\<open>int\<close> is unbounded); the two coordinates are
  floating-point numbers of the array.
\<close>

type_synonym ('j, 'f) row = "'j json \<times> 'j json \<times> 'j json \<times> 'f \<times> 'f"

text \<open>
  The data frame of the library \<^verbatim>\<open>polars\<close>, which is not part of the notebook: the
  names of its columns and its rows.
\<close>

record ('j, 'f) dataframe =
  columns :: "string list"
  rows :: "('j, 'f) row list"

text \<open>
  \<^verbatim>\<open>polars\<close> gives every column one type of fixed width, which it infers from the cells.
  A column of strings is stored as \<^verbatim>\<open>str\<close>, a column of integers of 64 bits as \<^verbatim>\<open>i64\<close>
  and a column of floating-point numbers as \<^verbatim>\<open>f64\<close>, every cell as it is given: these
  are the column types of the table that the notebook records (\<^verbatim>\<open>str\<close>, \<^verbatim>\<open>i64\<close>, \<^verbatim>\<open>str\<close>,
  \<^verbatim>\<open>f64\<close>, \<^verbatim>\<open>f64\<close>).
\<close>

fun is_str :: "'j json \<Rightarrow> bool" where
  "is_str (JStr s) = True"
| "is_str _ = False"

fun is_i64 :: "'j json \<Rightarrow> bool" where
  "is_i64 (JInt n) = (- (2 ^ 63) \<le> n \<and> n < 2 ^ 63)"
| "is_i64 _ = False"

fun stored_row :: "('j, 'f) row \<Rightarrow> bool" where
  "stored_row (doc, topic, label, x, y) = (is_str doc \<and> is_i64 topic \<and> is_str label)"

definition stored_as_given :: "('j, 'f) row list \<Rightarrow> bool" where
  "stored_as_given rs = list_all stored_row rs"

text \<open>
  Given an iterable of tuples, \<^verbatim>\<open>pl.from_dicts\<close> reads each tuple as a row and names the
  columns by position, \<^verbatim>\<open>column_0\<close>, \<^verbatim>\<open>column_1\<close>, ...; an iterable that yields nothing
  gives a frame with no column.  On rows with other cells than the ones above the
  library converts some cells and rejects others (mixed strings and integers become
  strings, an integer beyond the integer types raises \<^verbatim>\<open>OverflowError\<close>, a list among
  strings raises \<^verbatim>\<open>ComputeError\<close>).  That inference is the library's; it is the parameter
  \<open>infer\<close>: the rows as the frame stores them, or the exception raised.
\<close>

definition from_dicts ::
  "(('j, 'f) row list \<Rightarrow> py_error + ('j, 'f) row list) \<Rightarrow> ('j, 'f) row list
     \<Rightarrow> py_error + ('j, 'f) dataframe" where
  "from_dicts infer rs =
     (if rs = [] then Inr \<lparr>columns = [], rows = []\<rparr>
      else if stored_as_given rs then
        Inr \<lparr>columns = [''column_0'', ''column_1'', ''column_2'', ''column_3'', ''column_4''],
             rows = rs\<rparr>
      else
        (case infer rs of
           Inl e \<Rightarrow> Inl e
         | Inr stored \<Rightarrow>
             Inr \<lparr>columns = [''column_0'', ''column_1'', ''column_2'', ''column_3'', ''column_4''],
                  rows = stored\<rparr>))"

text \<open>\<^verbatim>\<open>rename\<close> raises when the mapping names a column the frame does not have.\<close>

definition rename ::
  "(string \<times> string) list \<Rightarrow> ('j, 'f) dataframe \<Rightarrow> py_error + ('j, 'f) dataframe" where
  "rename mapping df =
     (case filter (\<lambda>old. old \<notin> set (columns df)) (map fst mapping) of
        old # _ \<Rightarrow> Inl (ColumnNotFoundError old)
      | [] \<Rightarrow>
          Inr (df\<lparr>columns :=
                 map (\<lambda>c. case map_of mapping c of None \<Rightarrow> c | Some new \<Rightarrow> new) (columns df)\<rparr>))"

definition COLS_MAPPING :: "(string \<times> string) list" where
  "COLS_MAPPING =
     [(''column_0'', ''text''), (''column_1'', ''topic''), (''column_2'', ''label''),
      (''column_3'', ''x''), (''column_4'', ''y'')]"

definition prepare2d ::
  "(('j, 'f) row list \<Rightarrow> py_error + ('j, 'f) row list) \<Rightarrow> global_binding
     \<Rightarrow> 'j json list \<Rightarrow> 'j json list \<Rightarrow> 'j json list \<Rightarrow> 'f ndarray
     \<Rightarrow> py_error + ('j, 'f) dataframe" where
  "prepare2d infer embeddings docs topics labels reduced_embeddings =
     (if shape reduced_embeddings ! 1 \<noteq> 2 then
        (case assert_message embeddings of Inl e \<Rightarrow> Inl e | Inr n \<Rightarrow> Inl (AssertionError n))
      else
        (case from_dicts infer
                (zip5 docs topics labels
                   (column 0 reduced_embeddings) (column 1 reduced_embeddings)) of
           Inl e \<Rightarrow> Inl e
         | Inr pl_view \<Rightarrow> rename COLS_MAPPING pl_view))"

text \<open>A Document whose field \<open>key\<close> is a string, as the spec's Document has them.\<close>

definition has_str_field :: "string \<Rightarrow> 'j json \<Rightarrow> bool" where
  "has_str_field key d = (case field key d of None \<Rightarrow> False | Some v \<Rightarrow> is_str v)"

subsection \<open>Example files\<close>

text \<open>
  Five files for the concrete runs below, with the texts \<^verbatim>\<open>{}\<close>, \<^verbatim>\<open>[]\<close>,
  \<^verbatim>\<open>{"": []}\<close>, \<^verbatim>\<open>{"docs": []}\<close> (\<open>CHR 0x22\<close> is the double quote) and \<^verbatim>\<open>{\<close>, which
  is not JSON.  \<open>example_load\<close> is \<^verbatim>\<open>json.load\<close> on these five texts; no other text is read
  below.
\<close>

definition masked_text :: string where
  "masked_text =
     [CHR ''{'', CHR 0x22, CHR 0x22, CHR '':'', CHR '' '', CHR ''['', CHR '']'', CHR ''}'']"

definition keyed_text :: string where
  "keyed_text =
     [CHR ''{'', CHR 0x22, CHR ''d'', CHR ''o'', CHR ''c'', CHR ''s'', CHR 0x22, CHR '':'', CHR '' '',
      CHR ''['', CHR '']'', CHR ''}'']"

definition example_fs :: "string \<Rightarrow> string option" where
  "example_fs =
     [''empty.json'' \<mapsto> ''{}'', ''list.json'' \<mapsto> ''[]'', ''masked.json'' \<mapsto> masked_text,
      ''keyed.json'' \<mapsto> keyed_text, ''broken.json'' \<mapsto> ''{'']"

definition example_load :: "string \<Rightarrow> 'f json option" where
  "example_load fin =
     (if fin = ''{}'' then Some (JObj [])
      else if fin = ''[]'' then Some (JArr [])
      else if fin = masked_text then Some (JObj [('''', JArr [])])
      else if fin = keyed_text then Some (JObj [(''docs'', JArr [])])
      else None)"

text \<open>Two Documents with both fields, and a collection whose second Document has no title.\<close>

definition example_docs :: "'f json list" where
  "example_docs =
     [JObj [(''content'', JStr ''first text''), (''title'', JStr ''A'')],
      JObj [(''title'', JStr ''B''), (''content'', JStr ''second text'')]]"

definition example_docs_no_title :: "'f json list" where
  "example_docs_no_title =
     [JObj [(''content'', JStr ''first text''), (''title'', JStr ''A'')],
      JObj [(''content'', JStr ''second text'')]]"

text \<open>
  Five Documents, five topics, five labels and arrays of points for the concrete runs of
  the table builder.  The coordinates may be of any type; the examples use integers.
  Every cell of the runs below is a string or an integer of 64 bits, so the library's
  inference is not reached there; \<open>example_infer\<close> stands in its place.
\<close>

definition five_docs :: "'f json list" where
  "five_docs =
     [JObj [(''content'', JStr ''t0''), (''title'', JStr ''A'')],
      JObj [(''content'', JStr ''t1''), (''title'', JStr ''B'')],
      JObj [(''content'', JStr ''t2''), (''title'', JStr ''C'')],
      JObj [(''content'', JStr ''t3''), (''title'', JStr ''D'')],
      JObj [(''content'', JStr ''t4''), (''title'', JStr ''E'')]]"

definition five_topics :: "'j json list" where
  "five_topics = [JInt 4, JInt 4, JInt 0, JInt (- 1), JInt 2]"

definition five_labels :: "'j json list" where
  "five_labels = [JStr ''A'', JStr ''B'', JStr ''C'', JStr ''D'', JStr ''E'']"

definition five_points :: "int ndarray" where
  "five_points = \<lparr>ncols = 2, data = [[10, 8], [10, 6], [11, 6], [9, 12], [7, 7]]\<rparr>"

definition two_points :: "int ndarray" where
  "two_points = \<lparr>ncols = 2, data = [[1, 2], [3, 4]]\<rparr>"

definition three_columns :: "int ndarray" where
  "three_columns = \<lparr>ncols = 3, data = [[1, 2, 3], [4, 5, 6]]\<rparr>"

definition example_infer :: "('j, 'f) row list \<Rightarrow> py_error + ('j, 'f) row list" where
  "example_infer rs = Inl ComputeError"

section \<open>Properties\<close>

subsection \<open>Device Selector\<close>

text \<open>
  What the function does, over the two values it reads: the primary tag when
  \<^verbatim>\<open>torch.cuda.is_available()\<close> holds, else the secondary tag when the build flag
  \<^verbatim>\<open>torch.has_mps\<close> holds, else the fallback tag; always one of the three tags, and the
  same tag for two runtime states that agree on the two values.
\<close>

lemma maybe_cuda_or_mps_probes:
  fixes rt :: "'a torch_scheme" and rt' :: "'b torch_scheme"
  shows "(cuda_is_available rt \<longrightarrow> maybe_cuda_or_mps rt = ''cuda:0'')
       \<and> (\<not> cuda_is_available rt \<and> has_mps rt \<longrightarrow> maybe_cuda_or_mps rt = ''mps'')
       \<and> (\<not> cuda_is_available rt \<and> \<not> has_mps rt \<longrightarrow> maybe_cuda_or_mps rt = ''cpu'')
       \<and> maybe_cuda_or_mps rt \<in> {''cuda:0'', ''mps'', ''cpu''}
       \<and> (cuda_is_available rt' = cuda_is_available rt \<and> has_mps rt' = has_mps rt
            \<longrightarrow> maybe_cuda_or_mps rt' = maybe_cuda_or_mps rt)"
  by (simp add: maybe_cuda_or_mps_def)

text \<open>
  The function follows the policy of the spec exactly on the runtime states in which the
  primary accelerator is available or the build flag agrees with the availability of
  the secondary one.
\<close>

lemma maybe_cuda_or_mps_select_device:
  "(maybe_cuda_or_mps rt = spec_select_device rt)
     = (cuda_is_available rt \<or> has_mps rt = mps_is_available rt)"
  by (simp add: maybe_cuda_or_mps_def spec_select_device_def)

text \<open>
  C8.  The claim fails on the code where the primary accelerator is not available and
  the secondary one is built into the library but not available at run time: the
  function returns \<^verbatim>\<open>"mps"\<close>, and the policy asks for \<^verbatim>\<open>"cpu"\<close>.  The branch for the primary
  accelerator asks for availability (\<^verbatim>\<open>is_available()\<close>); the branch for the secondary one
  reads the build flag instead.
\<close>

theorem maybe_cuda_or_mps_built_not_available:
  "maybe_cuda_or_mps \<lparr>cuda_is_available = False, has_mps = True, mps_is_available = False\<rparr>
       = ''mps''
   \<and> spec_select_device \<lparr>cuda_is_available = False, has_mps = True, mps_is_available = False\<rparr>
       = ''cpu''"
  by (simp add: maybe_cuda_or_mps_def spec_select_device_def)

subsection \<open>Document Loader\<close>

lemma ignite_dataset_found:
  "fs path = Some fin \<Longrightarrow> json_load fin = Some docs \<Longrightarrow>
   ignite_dataset fs json_load path mask_arg =
     (if truthy mask_arg then getitem docs (the mask_arg) else Inr docs)"
  by (simp add: ignite_dataset_def)

text \<open>
  C6, as the claim states it, fails for the empty mask: on the file \<^verbatim>\<open>{"": []}\<close> the
  key \<^verbatim>\<open>""\<close> is present, and the loader called with \<^verbatim>\<open>mask=""\<close> returns the whole
  parsed dict, not the value \<^verbatim>\<open>[]\<close> stored under that key.
\<close>

theorem ignite_dataset_empty_mask_present_counterexample:
  "ignite_dataset example_fs example_load ''masked.json'' (Some '''')
     = Inr (JObj [('''', JArr [])] :: unit json)
   \<and> getitem (JObj [('''', JArr [])] :: unit json) '''' = Inr (JArr [])"
  by (simp add: ignite_dataset_def example_fs_def example_load_def masked_text_def)

text \<open>
  C6, amended.  For every file that exists and parses, the loader returns the value at
  the top-level key \<^verbatim>\<open>mask\<close> when a non-empty mask is given and the parsed dict has that
  key, and it returns the whole parsed structure, unmodified, when no mask is given.
\<close>

theorem ignite_dataset_returns:
  assumes "fs path = Some fin" and "json_load fin = Some docs"
  shows "(mask_arg = None \<longrightarrow> ignite_dataset fs json_load path mask_arg = Inr docs)
       \<and> (\<forall>key items v.
             mask_arg = Some key \<and> key \<noteq> [] \<and> docs = JObj items \<and> map_of items key = Some v
             \<longrightarrow> ignite_dataset fs json_load path mask_arg = Inr v)"
  using assms by (auto simp: ignite_dataset_found)

theorem ignite_dataset_returns_witness:
  "example_fs ''keyed.json'' = Some keyed_text
   \<and> example_load keyed_text = Some (JObj [(''docs'', JArr [])] :: unit json)
   \<and> ignite_dataset example_fs example_load ''keyed.json'' None
       = Inr (JObj [(''docs'', JArr [])] :: unit json)
   \<and> ignite_dataset example_fs example_load ''keyed.json'' (Some ''docs'')
       = Inr (JArr [] :: unit json)"
proof -
  have f: "example_fs ''keyed.json'' = Some keyed_text"
    by (simp add: example_fs_def)
  have l: "example_load keyed_text = Some (JObj [(''docs'', JArr [])] :: unit json)"
    by (simp add: example_load_def keyed_text_def masked_text_def)
  have "ignite_dataset example_fs example_load ''keyed.json'' None
          = Inr (JObj [(''docs'', JArr [])] :: unit json)"
    using ignite_dataset_returns
            [of example_fs "''keyed.json''" keyed_text example_load "JObj [(''docs'', JArr [])]" None]
          f l
    by simp
  moreover have "ignite_dataset example_fs example_load ''keyed.json'' (Some ''docs'')
          = Inr (JArr [] :: unit json)"
    using ignite_dataset_returns
            [of example_fs "''keyed.json''" keyed_text example_load "JObj [(''docs'', JArr [])]"
                "Some ''docs''"]
          f l
    by simp
  ultimately show ?thesis
    using f l by simp
qed

text \<open>
  C7, as the claim states it, fails for the empty mask: on the file \<^verbatim>\<open>{}\<close> no key is
  present, the loader is called with \<^verbatim>\<open>mask=""\<close>, and it returns the parsed dict; no
  \<^verbatim>\<open>KeyError\<close> is raised.
\<close>

theorem ignite_dataset_empty_mask_absent_counterexample:
  "ignite_dataset example_fs example_load ''empty.json'' (Some '''')
     = Inr (JObj [] :: unit json)
   \<and> field '''' (JObj [] :: unit json) = None"
  by (simp add: ignite_dataset_def example_fs_def example_load_def)

text \<open>
  C7, amended.  The loader fails with \<^verbatim>\<open>FileNotFoundError\<close> when the path does not exist,
  with the parser's error when the content does not parse, and with \<^verbatim>\<open>KeyError\<close> when a
  non-empty mask is given and the parsed structure is a dict without that key.  In each
  of these cases the result is an exception (\<open>Inl\<close>): nothing is returned.
\<close>

theorem ignite_dataset_failures:
  "(fs path = None \<longrightarrow> ignite_dataset fs json_load path mask_arg = Inl FileNotFoundError)
 \<and> (\<forall>fin. fs path = Some fin \<and> json_load fin = None
        \<longrightarrow> ignite_dataset fs json_load path mask_arg = Inl JSONDecodeError)
 \<and> (\<forall>fin items key.
        fs path = Some fin \<and> json_load fin = Some (JObj items)
        \<and> mask_arg = Some key \<and> key \<noteq> [] \<and> map_of items key = None
        \<longrightarrow> ignite_dataset fs json_load path mask_arg = Inl (KeyError key))"
  by (auto simp: ignite_dataset_def)

theorem ignite_dataset_failures_witness:
  "example_fs ''missing.json'' = None
   \<and> ignite_dataset example_fs example_load ''missing.json'' None
     = (Inl FileNotFoundError :: py_error + unit json)
   \<and> example_fs ''broken.json'' = Some ''{''
   \<and> (example_load ''{'' :: unit json option) = None
   \<and> ignite_dataset example_fs example_load ''broken.json'' None
     = (Inl JSONDecodeError :: py_error + unit json)
   \<and> example_fs ''masked.json'' = Some masked_text
   \<and> ignite_dataset example_fs example_load ''masked.json'' (Some ''docs'')
     = (Inl (KeyError ''docs'') :: py_error + unit json)"
proof -
  have m: "example_fs ''missing.json'' = None"
    by (simp add: example_fs_def)
  have b: "example_fs ''broken.json'' = Some ''{''"
      "(example_load ''{'' :: unit json option) = None"
    by (simp_all add: example_fs_def example_load_def masked_text_def keyed_text_def)
  have k: "example_fs ''masked.json'' = Some masked_text"
      "example_load masked_text = Some (JObj [('''', JArr [])] :: unit json)"
      "map_of [('''', JArr [] :: unit json)] ''docs'' = None"
    by (simp_all add: example_fs_def example_load_def masked_text_def)
  have "ignite_dataset example_fs example_load ''missing.json'' None
          = (Inl FileNotFoundError :: py_error + unit json)"
    using ignite_dataset_failures
            [of example_fs "''missing.json''" "example_load :: string \<Rightarrow> unit json option" None] m
    by blast
  moreover have "ignite_dataset example_fs example_load ''broken.json'' None
          = (Inl JSONDecodeError :: py_error + unit json)"
    using ignite_dataset_failures
            [of example_fs "''broken.json''" "example_load :: string \<Rightarrow> unit json option" None] b
    by blast
  moreover have "ignite_dataset example_fs example_load ''masked.json'' (Some ''docs'')
          = (Inl (KeyError ''docs'') :: py_error + unit json)"
    using ignite_dataset_failures
            [of example_fs "''masked.json''" "example_load :: string \<Rightarrow> unit json option"
                "Some ''docs''"] k
    by force
  ultimately show ?thesis
    using m b k(1) by simp
qed

text \<open>
  C10.  Called with the empty string as mask, the loader behaves as if no mask were
  given: the two calls have the same outcome, that outcome is never a \<^verbatim>\<open>KeyError\<close>, and
  for a file that exists and parses it is the whole parsed structure.
\<close>

theorem ignite_dataset_empty_mask:
  "ignite_dataset fs json_load path (Some '''') = ignite_dataset fs json_load path None
 \<and> (\<forall>key. ignite_dataset fs json_load path (Some '''') \<noteq> Inl (KeyError key))
 \<and> (\<forall>fin docs. fs path = Some fin \<and> json_load fin = Some docs
        \<longrightarrow> ignite_dataset fs json_load path (Some '''') = Inr docs)"
  by (auto simp: ignite_dataset_def split: option.splits)

theorem ignite_dataset_empty_mask_witness:
  "example_fs ''list.json'' = Some ''[]''
   \<and> example_load ''[]'' = Some (JArr [] :: unit json)
   \<and> ignite_dataset example_fs example_load ''list.json'' (Some '''') = Inr (JArr [] :: unit json)"
proof -
  have f: "example_fs ''list.json'' = Some ''[]''"
    by (simp add: example_fs_def)
  have l: "example_load ''[]'' = Some (JArr [] :: unit json)"
    by (simp add: example_load_def)
  have "ignite_dataset example_fs example_load ''list.json'' (Some '''') = Inr (JArr [] :: unit json)"
    using ignite_dataset_empty_mask [of example_fs example_load "''list.json''"] f l
    by blast
  with f l show ?thesis by simp
qed

subsection \<open>Text/Label Extractor\<close>

lemma getitem_field:
  "is_dict d \<Longrightarrow>
   getitem d key = (case field key d of None \<Rightarrow> Inl (KeyError key) | Some v \<Rightarrow> Inr v)"
  by (cases d) simp_all

lemma has_field_is_dict: "has_field key d \<Longrightarrow> is_dict d"
  by (cases d) (simp_all add: has_field_def)

text \<open>When every element has the field, the comprehension collects the values in order.\<close>

lemma comprehension_all:
  "list_all (has_field key) ds \<Longrightarrow>
   \<exists>vs. comprehension key ds = Inr vs \<and> list_all2 (\<lambda>d v. field key d = Some v) ds vs"
proof (induction ds)
  case Nil
  then show ?case by simp
next
  case (Cons d ds)
  then obtain vs where vs: "comprehension key ds = Inr vs"
      "list_all2 (\<lambda>d v. field key d = Some v) ds vs"
    by auto
  from Cons.prems obtain v where v: "field key d = Some v"
    by (auto simp: has_field_def)
  moreover have "is_dict d"
    using Cons.prems has_field_is_dict by auto
  ultimately have "getitem d key = Inr v"
    by (simp add: getitem_field)
  with vs v show ?case by simp
qed

text \<open>When the elements are dicts and one has no such field, the lookup there raises.\<close>

lemma comprehension_missing:
  "list_all is_dict ds \<Longrightarrow> \<not> list_all (has_field key) ds \<Longrightarrow>
   comprehension key ds = Inl (KeyError key)"
proof (induction ds)
  case Nil
  then show ?case by simp
next
  case (Cons d ds)
  show ?case
  proof (cases "field key d")
    case None
    with Cons.prems show ?thesis by (simp add: getitem_field)
  next
    case (Some v)
    then have "has_field key d"
      by (simp add: has_field_def)
    with Cons.prems have "\<not> list_all (has_field key) ds"
      by simp
    with Cons have "comprehension key ds = Inl (KeyError key)"
      by simp
    with Some Cons.prems show ?thesis by (simp add: getitem_field)
  qed
qed

text \<open>
  C3.  For every collection of Documents (dicts) in which some Document lacks the field
  \<^verbatim>\<open>content\<close> or the field \<^verbatim>\<open>title\<close>, the extraction fails: it raises \<^verbatim>\<open>KeyError\<close>, the
  exception by which Python reports the missing field (the spec's \<^verbatim>\<open>SchemaError\<close>), for
  \<^verbatim>\<open>content\<close> when some Document lacks it and for \<^verbatim>\<open>title\<close> otherwise.
\<close>

theorem extract_missing_field:
  assumes "list_all is_dict ds"
    and "\<not> list_all (has_field ''content'') ds \<or> \<not> list_all (has_field ''title'') ds"
  shows "extract_texts_labels (JArr ds) =
           Inl (KeyError (if list_all (has_field ''content'') ds then ''title'' else ''content''))"
proof (cases "list_all (has_field ''content'') ds")
  case True
  then obtain vs where "comprehension ''content'' ds = Inr vs"
    using comprehension_all by blast
  moreover have "comprehension ''title'' ds = Inl (KeyError ''title'')"
    using assms True by (simp add: comprehension_missing)
  ultimately show ?thesis
    using True by (simp add: extract_texts_labels_def project_def)
next
  case False
  then have "comprehension ''content'' ds = Inl (KeyError ''content'')"
    using assms by (simp add: comprehension_missing)
  then show ?thesis
    using False by (simp add: extract_texts_labels_def project_def)
qed

theorem extract_missing_field_witness:
  "list_all is_dict (example_docs_no_title :: unit json list)
   \<and> \<not> list_all (has_field ''title'') (example_docs_no_title :: unit json list)
   \<and> extract_texts_labels (JArr example_docs_no_title :: unit json) = Inl (KeyError ''title'')"
proof -
  have d: "list_all is_dict (example_docs_no_title :: unit json list)"
    by (simp add: example_docs_no_title_def)
  have t: "\<not> list_all (has_field ''title'') (example_docs_no_title :: unit json list)"
    by (simp add: example_docs_no_title_def has_field_def)
  have c: "list_all (has_field ''content'') (example_docs_no_title :: unit json list)"
    by (simp add: example_docs_no_title_def has_field_def)
  show ?thesis
    using d t c extract_missing_field [OF d disjI2 [OF t]] by simp
qed

text \<open>On a collection whose Documents all have both fields, both comprehensions succeed.\<close>

lemma extract_texts_labels_all:
  assumes "list_all (has_field ''content'') ds" and "list_all (has_field ''title'') ds"
  shows "\<exists>texts labels.
           extract_texts_labels (JArr ds) = Inr (texts, labels)
           \<and> list_all2 (\<lambda>d v. field ''content'' d = Some v) ds texts
           \<and> list_all2 (\<lambda>d v. field ''title'' d = Some v) ds labels"
proof -
  obtain texts where t: "comprehension ''content'' ds = Inr texts"
      "list_all2 (\<lambda>d v. field ''content'' d = Some v) ds texts"
    using comprehension_all [OF assms(1)] by blast
  obtain labels where l: "comprehension ''title'' ds = Inr labels"
      "list_all2 (\<lambda>d v. field ''title'' d = Some v) ds labels"
    using comprehension_all [OF assms(2)] by blast
  have "extract_texts_labels (JArr ds) = Inr (texts, labels)"
    using t(1) l(1) by (simp add: extract_texts_labels_def project_def)
  with t(2) l(2) show ?thesis by blast
qed

text \<open>
  C9.  For every collection of \<open>n\<close> Documents that all have the fields \<^verbatim>\<open>content\<close> and
  \<^verbatim>\<open>title\<close>, the extraction returns two sequences of length \<open>n\<close>; the \<open>i\<close>-th text is
  the \<^verbatim>\<open>content\<close> of Document \<open>i\<close> and the \<open>i\<close>-th label its \<^verbatim>\<open>title\<close>.
\<close>

theorem extract_valid:
  assumes "list_all (has_field ''content'') ds" and "list_all (has_field ''title'') ds"
  shows "\<exists>texts labels.
           extract_texts_labels (JArr ds) = Inr (texts, labels)
           \<and> length texts = length ds \<and> length labels = length ds
           \<and> (\<forall>i<length ds. field ''content'' (ds ! i) = Some (texts ! i)
                             \<and> field ''title'' (ds ! i) = Some (labels ! i))"
proof -
  obtain texts labels where e: "extract_texts_labels (JArr ds) = Inr (texts, labels)"
      "list_all2 (\<lambda>d v. field ''content'' d = Some v) ds texts"
      "list_all2 (\<lambda>d v. field ''title'' d = Some v) ds labels"
    using extract_texts_labels_all [OF assms] by blast
  have "length texts = length ds" "length labels = length ds"
    using e(2,3) by (auto dest: list_all2_lengthD)
  moreover have "\<forall>i<length ds. field ''content'' (ds ! i) = Some (texts ! i)
                             \<and> field ''title'' (ds ! i) = Some (labels ! i)"
    using e(2,3) by (simp add: list_all2_conv_all_nth)
  ultimately show ?thesis
    using e(1) by blast
qed

theorem extract_valid_witness:
  "list_all (has_field ''content'') (example_docs :: unit json list)
   \<and> list_all (has_field ''title'') (example_docs :: unit json list)
   \<and> extract_texts_labels (JArr example_docs :: unit json)
       = Inr ([JStr ''first text'', JStr ''second text''], [JStr ''A'', JStr ''B''])"
proof -
  have c: "list_all (has_field ''content'') (example_docs :: unit json list)"
    by (simp add: example_docs_def has_field_def)
  have t: "list_all (has_field ''title'') (example_docs :: unit json list)"
    by (simp add: example_docs_def has_field_def)
  have "extract_texts_labels (JArr example_docs :: unit json)
          = Inr ([JStr ''first text'', JStr ''second text''], [JStr ''A'', JStr ''B''])"
    using extract_valid [OF c t]
    by (simp add: extract_texts_labels_def project_def example_docs_def)
  with c t show ?thesis by simp
qed

subsection \<open>Tabular View Builder\<close>

lemma zip5_zip: "zip5 as bs cs ds es = zip as (zip bs (zip cs (zip ds es)))"
  by (induction as bs cs ds es rule: zip5.induct) auto

lemma length_zip5:
  "length (zip5 as bs cs ds es) =
     min (length as) (min (length bs) (min (length cs) (min (length ds) (length es))))"
  by (simp add: zip5_zip)

lemma nth_zip5:
  "i < length (zip5 as bs cs ds es) \<Longrightarrow>
   zip5 as bs cs ds es ! i = (as ! i, bs ! i, cs ! i, ds ! i, es ! i)"
  by (simp add: zip5_zip)

lemma length_column: "length (column j a) = length (data a)"
  by (simp add: column_def)

lemma nth_column: "i < length (data a) \<Longrightarrow> column j a ! i = data a ! i ! j"
  by (simp add: column_def)

text \<open>Rows zipped from strings, integers of 64 bits and strings are stored as given.\<close>

lemma stored_zip5:
  "list_all is_str docs \<Longrightarrow> list_all is_i64 topics \<Longrightarrow> list_all is_str labels \<Longrightarrow>
   stored_as_given (zip5 docs topics labels xs ys)"
  unfolding stored_as_given_def
  by (induction docs topics labels xs ys rule: zip5.induct) simp_all

lemma from_dicts_stored:
  "rs \<noteq> [] \<Longrightarrow> stored_as_given rs \<Longrightarrow>
   from_dicts infer rs =
     Inr \<lparr>columns = [''column_0'', ''column_1'', ''column_2'', ''column_3'', ''column_4''],
          rows = rs\<rparr>"
  by (simp add: from_dicts_def)

lemma rename_positional:
  "rename COLS_MAPPING
     \<lparr>columns = [''column_0'', ''column_1'', ''column_2'', ''column_3'', ''column_4''], rows = rs\<rparr>
   = Inr \<lparr>columns = [''text'', ''topic'', ''label'', ''x'', ''y''], rows = rs\<rparr>"
  by (simp add: rename_def COLS_MAPPING_def)

lemma rename_no_column:
  "rename COLS_MAPPING \<lparr>columns = [], rows = rs\<rparr> = Inl (ColumnNotFoundError ''column_0'')"
  by (simp add: rename_def COLS_MAPPING_def)

text \<open>With two columns the assertion passes and the table is built.\<close>

lemma prepare2d_two_columns:
  "ncols pts = 2 \<Longrightarrow>
   prepare2d infer g docs topics labels pts =
     (case from_dicts infer (zip5 docs topics labels (column 0 pts) (column 1 pts)) of
        Inl e \<Rightarrow> Inl e
      | Inr pl_view \<Rightarrow> rename COLS_MAPPING pl_view)"
  by (simp add: prepare2d_def shape_def)

lemma prepare2d_table:
  assumes "ncols pts = 2"
    and "list_all is_str docs" and "list_all is_i64 topics" and "list_all is_str labels"
    and "0 < min (length docs) (min (length topics) (min (length labels) (length (data pts))))"
  shows "prepare2d infer g docs topics labels pts =
     Inr \<lparr>columns = [''text'', ''topic'', ''label'', ''x'', ''y''],
          rows = zip5 docs topics labels (column 0 pts) (column 1 pts)\<rparr>"
proof -
  let ?rs = "zip5 docs topics labels (column 0 pts) (column 1 pts)"
  have "length ?rs \<noteq> 0"
    using assms(5) by (simp add: length_zip5 length_column)
  then have "?rs \<noteq> []"
    by auto
  moreover have "stored_as_given ?rs"
    using assms(2-4) by (rule stored_zip5)
  ultimately have "from_dicts infer ?rs =
      Inr \<lparr>columns = [''column_0'', ''column_1'', ''column_2'', ''column_3'', ''column_4''],
           rows = ?rs\<rparr>"
    by (rule from_dicts_stored)
  then show ?thesis
    using assms(1) by (simp add: prepare2d_two_columns rename_positional)
qed

lemma prepare2d_rows:
  assumes "ncols pts = 2"
    and "list_all is_str docs" and "list_all is_i64 topics" and "list_all is_str labels"
    and "prepare2d infer g docs topics labels pts = Inr t"
  shows "rows t = zip5 docs topics labels (column 0 pts) (column 1 pts)"
proof (cases "zip5 docs topics labels (column 0 pts) (column 1 pts) = []")
  case True
  then have "prepare2d infer g docs topics labels pts = Inl (ColumnNotFoundError ''column_0'')"
    using assms(1) by (simp add: prepare2d_two_columns from_dicts_def rename_no_column)
  with assms(5) show ?thesis by simp
next
  case False
  then have "length (zip5 docs topics labels (column 0 pts) (column 1 pts)) \<noteq> 0"
    by simp
  then have "0 < min (length docs) (min (length topics) (min (length labels) (length (data pts))))"
    by (simp add: length_zip5 length_column)
  then have "prepare2d infer g docs topics labels pts =
     Inr \<lparr>columns = [''text'', ''topic'', ''label'', ''x'', ''y''],
          rows = zip5 docs topics labels (column 0 pts) (column 1 pts)\<rparr>"
    using assms(1-4) by (simp add: prepare2d_table)
  with assms(5) show ?thesis by auto
qed

text \<open>
  With another number of columns the assertion fails, and what is raised depends on the
  global \<^verbatim>\<open>embeddings\<close> that the message reads: an \<^verbatim>\<open>AssertionError\<close> only when that
  global has a \<^verbatim>\<open>shape\<close> with a second entry.  No table is returned in any case.
\<close>

lemma prepare2d_wrong_columns:
  "ncols pts \<noteq> 2 \<Longrightarrow>
   prepare2d infer g docs topics labels pts =
     (case assert_message g of Inl e \<Rightarrow> Inl e | Inr n \<Rightarrow> Inl (AssertionError n))"
  by (simp add: prepare2d_def shape_def)

lemma prepare2d_wrong_columns_no_table:
  "ncols pts \<noteq> 2 \<Longrightarrow> prepare2d infer g docs topics labels pts \<noteq> Inr t"
  by (simp add: prepare2d_wrong_columns split: sum.splits)

lemma prepare2d_wrong_columns_list_global:
  "ncols pts \<noteq> 2 \<Longrightarrow> prepare2d infer ListObject docs topics labels pts = Inl AttributeError"
  by (simp add: prepare2d_wrong_columns)

lemma prepare2d_wrong_columns_assertion:
  "ncols pts \<noteq> 2 \<Longrightarrow>
   (\<exists>n. prepare2d infer g docs topics labels pts = Inl (AssertionError n))
     = (\<exists>shp. g = ArrayObject shp \<and> 1 < length shp)"
  by (cases g) (auto simp: prepare2d_wrong_columns)

text \<open>
  C2.  The claim holds for two columns (\<open>prepare2d_two_columns\<close>) and fails for any other
  number in the notebook's own state: there the global \<^verbatim>\<open>embeddings\<close> is a Python list,
  and formatting the assertion's message raises \<^verbatim>\<open>AttributeError\<close> before any
  \<^verbatim>\<open>AssertionError\<close> is raised.  The run below is the call with points of three columns;
  the frame is never built, so the outcome is the same whatever the library's inference.
\<close>

theorem prepare2d_three_columns_attribute_error:
  "prepare2d infer ListObject [JStr ''t0'', JStr ''t1''] [JInt 4, JInt 4] [JStr ''A'', JStr ''B'']
     three_columns
     = Inl AttributeError"
  by (simp add: prepare2d_def shape_def three_columns_def)

text \<open>
  C1, as the claim states it, fails: two documents, one topic, two labels and two points
  are sequences of unequal length, and the builder returns a table of one row.
\<close>

theorem prepare2d_unequal_lengths_counterexample:
  "prepare2d example_infer ListObject [JStr ''t0'', JStr ''t1''] [JInt 4] [JStr ''A'', JStr ''B'']
     two_points
   = Inr \<lparr>columns = [''text'', ''topic'', ''label'', ''x'', ''y''],
          rows = [(JStr ''t0'', JInt 4, JStr ''A'', 1, 2)]\<rparr>"
  by (simp add: prepare2d_def shape_def column_def from_dicts_def stored_as_given_def rename_def
      COLS_MAPPING_def two_points_def)

text \<open>
  C1, amended.  For every call in which the four sequences do not all have the same
  length, the documents and the labels are strings, the topics are integers of 64 bits,
  the points have two columns and no sequence is empty, the builder does not reject the
  input: \<^verbatim>\<open>zip(..., strict=False)\<close> stops at the shortest sequence, and the call returns
  a table with as many rows as the shortest sequence has elements, row \<open>i\<close> holding the
  \<open>i\<close>-th document, topic, label and point.
\<close>

theorem prepare2d_truncates:
  fixes pts :: "'f ndarray"
  assumes "wf_ndarray pts" and "ncols pts = 2"
    and "list_all is_str docs" and "list_all is_i64 topics" and "list_all is_str labels"
    and "\<not> (length docs = length topics \<and> length topics = length labels
            \<and> length labels = length (data pts))"
    and "n = min (length docs) (min (length topics) (min (length labels) (length (data pts))))"
    and "0 < n"
  shows "\<exists>t. prepare2d infer g docs topics labels pts = Inr t
           \<and> length (rows t) = n
           \<and> (\<forall>i<n. rows t ! i
                       = (docs ! i, topics ! i, labels ! i, data pts ! i ! 0, data pts ! i ! 1))"
proof -
  let ?rs = "zip5 docs topics labels (column 0 pts) (column 1 pts)"
  have "prepare2d infer g docs topics labels pts =
          Inr \<lparr>columns = [''text'', ''topic'', ''label'', ''x'', ''y''], rows = ?rs\<rparr>"
    using assms(2-5,7,8) by (simp add: prepare2d_table)
  moreover have len: "length ?rs = n"
    using assms(7) by (simp add: length_zip5 length_column)
  moreover have "\<forall>i<n. ?rs ! i
                    = (docs ! i, topics ! i, labels ! i, data pts ! i ! 0, data pts ! i ! 1)"
  proof (intro allI impI)
    fix i assume "i < n"
    then have "i < length ?rs" "i < length (data pts)"
      using len assms(7) by simp_all
    then show "?rs ! i = (docs ! i, topics ! i, labels ! i, data pts ! i ! 0, data pts ! i ! 1)"
      by (simp add: nth_zip5 nth_column)
  qed
  ultimately show ?thesis by simp
qed

theorem prepare2d_truncates_witness:
  "wf_ndarray two_points \<and> ncols two_points = 2
   \<and> list_all is_str [JStr ''t0'', JStr ''t1'', JStr ''t2'' :: unit json]
   \<and> list_all is_i64 [JInt 4, JInt 7 :: unit json]
   \<and> list_all is_str [JStr ''A'', JStr ''B'' :: unit json]
   \<and> length [JStr ''t0'', JStr ''t1'', JStr ''t2'' :: unit json] \<noteq> length [JInt 4, JInt 7 :: unit json]
   \<and> (\<exists>t. prepare2d example_infer ListObject [JStr ''t0'', JStr ''t1'', JStr ''t2'' :: unit json]
              [JInt 4, JInt 7] [JStr ''A'', JStr ''B''] two_points = Inr t
         \<and> length (rows t) = 2
         \<and> rows t ! 0 = (JStr ''t0'', JInt 4, JStr ''A'', 1, 2)
         \<and> rows t ! 1 = (JStr ''t1'', JInt 7, JStr ''B'', 3, 4))"
proof -
  let ?docs = "[JStr ''t0'', JStr ''t1'', JStr ''t2'' :: unit json]"
  let ?topics = "[JInt 4, JInt 7 :: unit json]"
  let ?labels = "[JStr ''A'', JStr ''B'' :: unit json]"
  have w: "wf_ndarray two_points"
    by (simp add: wf_ndarray_def two_points_def)
  have c: "ncols two_points = 2"
    by (simp add: two_points_def)
  have s: "list_all is_str ?docs" "list_all is_i64 ?topics" "list_all is_str ?labels"
    by simp_all
  have u: "\<not> (length ?docs = length ?topics \<and> length ?topics = length ?labels
              \<and> length ?labels = length (data two_points))"
    by simp
  have n: "2 = min (length ?docs)
                 (min (length ?topics) (min (length ?labels) (length (data two_points))))"
    by (simp add: two_points_def)
  obtain t where t: "prepare2d example_infer ListObject ?docs ?topics ?labels two_points = Inr t"
      "length (rows t) = 2"
      "\<forall>i<2. rows t ! i = (?docs ! i, ?topics ! i, ?labels ! i,
                             data two_points ! i ! 0, data two_points ! i ! 1)"
    using prepare2d_truncates [OF w c s u n, of example_infer ListObject] by auto
  from t(3) have "rows t ! 0 = (JStr ''t0'', JInt 4, JStr ''A'', 1, 2)"
      "rows t ! 1 = (JStr ''t1'', JInt 7, JStr ''B'', 3, 4)"
    by (simp_all add: two_points_def)
  with w c s t(1,2) show ?thesis by simp
qed

text \<open>
  C4.  For inputs of one common length \<open>n\<close>, with documents and labels that are strings,
  topics that are integers of 64 bits and points of two columns, every table the builder
  returns has \<open>n\<close> rows in the order of the documents, row \<open>i\<close> holding
  \<open>(documents[i], topics[i], labels[i], points[i].x, points[i].y)\<close>; and such a table is
  returned whenever \<open>n\<close> is positive.
\<close>

theorem prepare2d_row_order:
  fixes pts :: "'f ndarray"
  assumes "wf_ndarray pts" and "ncols pts = 2"
    and "list_all is_str docs" and "list_all is_i64 topics" and "list_all is_str labels"
    and "length docs = n" and "length topics = n" and "length labels = n"
    and "length (data pts) = n"
  shows "(\<forall>t. prepare2d infer g docs topics labels pts = Inr t \<longrightarrow>
            length (rows t) = n
            \<and> (\<forall>i<n. rows t ! i
                        = (docs ! i, topics ! i, labels ! i, data pts ! i ! 0, data pts ! i ! 1)))
       \<and> (0 < n \<longrightarrow> (\<exists>t. prepare2d infer g docs topics labels pts = Inr t))"
proof -
  let ?rs = "zip5 docs topics labels (column 0 pts) (column 1 pts)"
  have len: "length ?rs = n"
    using assms(6-9) by (simp add: length_zip5 length_column)
  have nth: "\<forall>i<n. ?rs ! i
                = (docs ! i, topics ! i, labels ! i, data pts ! i ! 0, data pts ! i ! 1)"
  proof (intro allI impI)
    fix i assume "i < n"
    then have "i < length ?rs" "i < length (data pts)"
      using len assms(9) by simp_all
    then show "?rs ! i = (docs ! i, topics ! i, labels ! i, data pts ! i ! 0, data pts ! i ! 1)"
      by (simp add: nth_zip5 nth_column)
  qed
  have "0 < n \<longrightarrow> (\<exists>t. prepare2d infer g docs topics labels pts = Inr t)"
    using assms(2-9) by (simp add: prepare2d_table)
  moreover have "\<forall>t. prepare2d infer g docs topics labels pts = Inr t \<longrightarrow> rows t = ?rs"
    using prepare2d_rows [OF assms(2-5)] by blast
  ultimately show ?thesis
    using len nth by simp
qed

theorem prepare2d_row_order_witness:
  "wf_ndarray two_points \<and> ncols two_points = 2 \<and> length (data two_points) = 2
   \<and> list_all is_str [JStr ''t0'', JStr ''t1'' :: unit json]
   \<and> list_all is_i64 [JInt 4, JInt 7 :: unit json]
   \<and> list_all is_str [JStr ''A'', JStr ''B'' :: unit json]
   \<and> (\<exists>t. prepare2d example_infer ListObject [JStr ''t0'', JStr ''t1'' :: unit json]
              [JInt 4, JInt 7] [JStr ''A'', JStr ''B''] two_points = Inr t
         \<and> length (rows t) = 2
         \<and> rows t ! 0 = (JStr ''t0'', JInt 4, JStr ''A'', 1, 2)
         \<and> rows t ! 1 = (JStr ''t1'', JInt 7, JStr ''B'', 3, 4))"
proof -
  let ?docs = "[JStr ''t0'', JStr ''t1'' :: unit json]"
  let ?topics = "[JInt 4, JInt 7 :: unit json]"
  let ?labels = "[JStr ''A'', JStr ''B'' :: unit json]"
  have w: "wf_ndarray two_points"
    by (simp add: wf_ndarray_def two_points_def)
  have c: "ncols two_points = 2"
    by (simp add: two_points_def)
  have s: "list_all is_str ?docs" "list_all is_i64 ?topics" "list_all is_str ?labels"
    by simp_all
  have l: "length ?docs = 2" "length ?topics = 2" "length ?labels = 2"
      "length (data two_points) = 2"
    by (simp_all add: two_points_def)
  have r: "(\<forall>t. prepare2d example_infer ListObject ?docs ?topics ?labels two_points = Inr t \<longrightarrow>
            length (rows t) = 2
            \<and> (\<forall>i<2. rows t ! i = (?docs ! i, ?topics ! i, ?labels ! i,
                                   data two_points ! i ! 0, data two_points ! i ! 1)))
       \<and> (0 < (2::nat) \<longrightarrow>
            (\<exists>t. prepare2d example_infer ListObject ?docs ?topics ?labels two_points = Inr t))"
    using prepare2d_row_order [OF w c s l, of example_infer ListObject] .
  then obtain t where t: "prepare2d example_infer ListObject ?docs ?topics ?labels two_points = Inr t"
    by auto
  with r have "length (rows t) = 2"
      "\<forall>i<2. rows t ! i = (?docs ! i, ?topics ! i, ?labels ! i,
                            data two_points ! i ! 0, data two_points ! i ! 1)"
    by blast+
  then have "length (rows t) = 2" "rows t ! 0 = (JStr ''t0'', JInt 4, JStr ''A'', 1, 2)"
      "rows t ! 1 = (JStr ''t1'', JInt 7, JStr ''B'', 3, 4)"
    by (simp_all add: two_points_def)
  with w c s l(4) t show ?thesis by simp
qed

lemma has_str_field_has_field: "has_str_field key d \<Longrightarrow> has_field key d"
  by (simp add: has_str_field_def has_field_def split: option.splits)

lemma list_all_has_str_field:
  "list_all (has_str_field key) ds \<Longrightarrow> list_all (has_field key) ds"
  by (induction ds) (simp_all add: has_str_field_has_field)

lemma extracted_strings:
  "list_all2 (\<lambda>d v. field key d = Some v) ds vs \<Longrightarrow> list_all (has_str_field key) ds \<Longrightarrow>
   list_all is_str vs"
  by (induction rule: list_all2_induct) (simp_all add: has_str_field_def)

text \<open>
  C5.  Given five Documents whose \<^verbatim>\<open>content\<close> and \<^verbatim>\<open>title\<close> are strings, five topics that
  are integers of 64 bits, five labels that are strings, and points with two columns,
  one point for each Document (five rows, as the reducer of the scenario returns them:
  with fewer points the zip would stop earlier), the extraction returns the five texts
  and the five titles, and the builder returns for the texts, the topics, the labels and
  the points a table of exactly five rows whose columns are named \<^verbatim>\<open>text\<close>, \<^verbatim>\<open>topic\<close>,
  \<^verbatim>\<open>label\<close>, \<^verbatim>\<open>x\<close>, \<^verbatim>\<open>y\<close>, in that order.
\<close>

theorem prepare2d_five_documents:
  fixes pts :: "'f ndarray" and ds :: "'j json list"
  assumes "length ds = 5"
    and "list_all (has_str_field ''content'') ds" and "list_all (has_str_field ''title'') ds"
    and "length topics = 5" and "list_all is_i64 topics"
    and "length labels = 5" and "list_all is_str labels"
    and "wf_ndarray pts" and "ncols pts = 2" and "length (data pts) = 5"
  shows "\<exists>documents titles t.
           extract_texts_labels (JArr ds) = Inr (documents, titles)
           \<and> length documents = 5 \<and> length titles = 5
           \<and> prepare2d infer g documents topics labels pts = Inr t
           \<and> length (rows t) = 5
           \<and> columns t = [''text'', ''topic'', ''label'', ''x'', ''y'']"
proof -
  have f: "list_all (has_field ''content'') ds" "list_all (has_field ''title'') ds"
    using assms(2,3) by (simp_all add: list_all_has_str_field)
  obtain documents titles where e0: "extract_texts_labels (JArr ds) = Inr (documents, titles)"
      "list_all2 (\<lambda>d v. field ''content'' d = Some v) ds documents"
      "list_all2 (\<lambda>d v. field ''title'' d = Some v) ds titles"
    using extract_texts_labels_all [OF f] by blast
  have e: "length documents = length ds" "length titles = length ds"
    using e0(2,3) by (auto dest: list_all2_lengthD)
  have s: "list_all is_str documents"
    using e0(2) assms(2) by (rule extracted_strings)
  let ?rs = "zip5 documents topics labels (column 0 pts) (column 1 pts)"
  have "prepare2d infer g documents topics labels pts =
          Inr \<lparr>columns = [''text'', ''topic'', ''label'', ''x'', ''y''], rows = ?rs\<rparr>"
    using s e(1) assms(1,4-7,9,10) by (simp add: prepare2d_table)
  moreover have "length ?rs = 5"
    using e(1) assms(1,4,6,10) by (simp add: length_zip5 length_column)
  ultimately show ?thesis
    using e0(1) e assms(1) by simp
qed

theorem prepare2d_five_documents_witness:
  "length (five_docs :: unit json list) = 5
   \<and> list_all (has_str_field ''content'') (five_docs :: unit json list)
   \<and> list_all (has_str_field ''title'') (five_docs :: unit json list)
   \<and> length (five_topics :: unit json list) = 5 \<and> list_all is_i64 (five_topics :: unit json list)
   \<and> length (five_labels :: unit json list) = 5 \<and> list_all is_str (five_labels :: unit json list)
   \<and> wf_ndarray five_points \<and> ncols five_points = 2 \<and> length (data five_points) = 5
   \<and> (\<exists>documents titles t.
         extract_texts_labels (JArr five_docs :: unit json) = Inr (documents, titles)
         \<and> length documents = 5 \<and> length titles = 5
         \<and> prepare2d example_infer ListObject documents five_topics five_labels five_points = Inr t
         \<and> length (rows t) = 5
         \<and> columns t = [''text'', ''topic'', ''label'', ''x'', ''y''])"
proof -
  have n: "length (five_docs :: unit json list) = 5"
    by (simp add: five_docs_def)
  have c: "list_all (has_str_field ''content'') (five_docs :: unit json list)"
    by (simp add: five_docs_def has_str_field_def)
  have t: "list_all (has_str_field ''title'') (five_docs :: unit json list)"
    by (simp add: five_docs_def has_str_field_def)
  have k: "length (five_topics :: unit json list) = 5" "list_all is_i64 (five_topics :: unit json list)"
    by (simp_all add: five_topics_def)
  have l: "length (five_labels :: unit json list) = 5" "list_all is_str (five_labels :: unit json list)"
    by (simp_all add: five_labels_def)
  have w: "wf_ndarray five_points"
    by (simp add: wf_ndarray_def five_points_def)
  have p: "ncols five_points = 2" "length (data five_points) = 5"
    by (simp_all add: five_points_def)
  have "\<exists>documents titles t.
         extract_texts_labels (JArr five_docs :: unit json) = Inr (documents, titles)
         \<and> length documents = 5 \<and> length titles = 5
         \<and> prepare2d example_infer ListObject documents five_topics five_labels five_points = Inr t
         \<and> length (rows t) = 5
         \<and> columns t = [''text'', ''topic'', ''label'', ''x'', ''y'']"
    using prepare2d_five_documents [OF n c t k l w p, of example_infer ListObject] .
  with n c t k l w p show ?thesis by simp
qed

end
